theory Spec2Isabelle
  imports Main "HOL-Library.Word"
begin

section \<open>JavaScript strings\<close>

text \<open>
  A JavaScript string is a sequence of UTF-16 code units; \<^verbatim>\<open>s.length\<close> counts code units,
  and so do the \<^verbatim>\<open>min\<close>/\<^verbatim>\<open>max\<close> checks of the validation schema.  ASCII text is written
  through \<open>ascii\<close>; other code units (the emoji of the fixed messages) are written as numerals.
\<close>

type_synonym js_string = "16 word list"

definition ascii :: "string \<Rightarrow> js_string" where
  "ascii s = map of_char s"

text \<open>\<^verbatim>\<open>String.prototype.startsWith\<close> (at position 0) and \<^verbatim>\<open>String.prototype.includes\<close>.\<close>

fun startsWith :: "js_string \<Rightarrow> js_string \<Rightarrow> bool" where
  "startsWith s [] = True"
| "startsWith [] (p # ps) = False"
| "startsWith (c # cs) (p # ps) = (c = p \<and> startsWith cs ps)"

fun includes_str :: "js_string \<Rightarrow> js_string \<Rightarrow> bool" where
  "includes_str [] p = (p = [])"
| "includes_str (c # cs) p = (startsWith (c # cs) p \<or> includes_str cs p)"

text \<open>
  \<^verbatim>\<open>String.prototype.trim\<close> removes leading and trailing WhiteSpace and LineTerminator
  code points (ECMAScript): TAB, LF, VT, FF, CR, SP, NBSP, U+1680, U+2000..U+200A, U+2028,
  U+2029, U+202F, U+205F, U+3000 and U+FEFF.  All of them are single code units.
\<close>

definition is_white_space :: "16 word \<Rightarrow> bool" where
  "is_white_space c =
     (c \<in> set [0x9, 0xA, 0xB, 0xC, 0xD, 0x20, 0xA0, 0x1680, 0x2028, 0x2029, 0x202F,
                 0x205F, 0x3000, 0xFEFF]
      \<or> (0x2000 \<le> c \<and> c \<le> 0x200A))"

definition trim :: "js_string \<Rightarrow> js_string" where
  "trim s = rev (dropWhile is_white_space (rev (dropWhile is_white_space s)))"

section \<open>Request bodies and the validation schema\<close>

text \<open>
  \<^verbatim>\<open>req.body\<close> as \<^verbatim>\<open>express.json()\<close> leaves it: a parsed JSON value, or \<^verbatim>\<open>undefined\<close>
  when no body was parsed.  The payload of the non-string values is never inspected by the
  handler.  An object is the list of its own properties (keys distinct after parsing).
\<close>

datatype js_value =
    JUndefined
  | JNull
  | JBool bool
  | JNumber int
  | JString js_string
  | JArray "js_value list"
  | JObject "(js_string \<times> js_value) list"

definition key_input :: js_string where
  "key_input = ascii ''input''"

fun get_property :: "(js_string \<times> js_value) list \<Rightarrow> js_string \<Rightarrow> js_value" where
  "get_property kvs k = (case map_of kvs k of None \<Rightarrow> JUndefined | Some v \<Rightarrow> v)"

text \<open>A validation issue: its code and the path of the value it is about.\<close>

datatype zod_issue =
    Invalid_type "js_string list"
  | Too_small "js_string list"
  | Too_big "js_string list"

text \<open>
  \<^verbatim>\<open>z.string().min(1).max(1000).trim()\<close>: the type check first, then the checks in the order
  in which they were chained, each on the current value.  \<^verbatim>\<open>min\<close> and \<^verbatim>\<open>max\<close> therefore see
  the string as it was sent, and \<^verbatim>\<open>trim\<close> rewrites the value afterwards.
\<close>

fun input_schema :: "js_value \<Rightarrow> zod_issue + js_string" where
  "input_schema (JString s) =
     (if length s < 1 then Inl (Too_small [key_input])
      else if 1000 < length s then Inl (Too_big [key_input])
      else Inr (trim s))"
| "input_schema JUndefined = Inl (Invalid_type [key_input])"
| "input_schema JNull = Inl (Invalid_type [key_input])"
| "input_schema (JBool b) = Inl (Invalid_type [key_input])"
| "input_schema (JNumber n) = Inl (Invalid_type [key_input])"
| "input_schema (JArray vs) = Inl (Invalid_type [key_input])"
| "input_schema (JObject kvs) = Inl (Invalid_type [key_input])"

text \<open>
  \<^verbatim>\<open>enhanceRequestSchema.parse(req.body)\<close> followed by the destructuring
  \<^verbatim>\<open>const { input } = ...\<close>: \<open>Inl\<close> is the thrown \<^verbatim>\<open>ZodError\<close>, \<open>Inr\<close> the parsed
  \<^verbatim>\<open>input\<close>.  Properties other than \<^verbatim>\<open>input\<close> are stripped without an error.
\<close>

fun enhanceRequestSchema_parse :: "js_value \<Rightarrow> zod_issue + js_string" where
  "enhanceRequestSchema_parse (JObject kvs) = input_schema (get_property kvs key_input)"
| "enhanceRequestSchema_parse JUndefined = Inl (Invalid_type [])"
| "enhanceRequestSchema_parse JNull = Inl (Invalid_type [])"
| "enhanceRequestSchema_parse (JBool b) = Inl (Invalid_type [])"
| "enhanceRequestSchema_parse (JNumber n) = Inl (Invalid_type [])"
| "enhanceRequestSchema_parse (JString s) = Inl (Invalid_type [])"
| "enhanceRequestSchema_parse (JArray vs) = Inl (Invalid_type [])"

section \<open>Errors, the provider and the timeout race\<close>

text \<open>
  The value of the \<^verbatim>\<open>message\<close> property of a caught object, as far as the handler
  observes it.  \<open>Nullish\<close> is \<^verbatim>\<open>undefined\<close> or \<^verbatim>\<open>null\<close>; \<open>Str\<close> is a string; \<open>Not_string\<close> is
  any other value that has no \<^verbatim>\<open>includes\<close> method (a number, a boolean, a plain object),
  given by the two things the handler can see of it: whether it is truthy, and the text that
  template interpolation makes of it.
\<close>

datatype js_message = Nullish | Str js_string | Not_string bool js_string

text \<open>
  The fields of a caught error object that the handler reads or logs; \<open>None\<close> is
  \<^verbatim>\<open>undefined\<close>.
\<close>

record js_error =
  message :: js_message
  stack :: "js_string option"
  status :: "nat option"
  code :: "js_string option"
  name :: "js_string option"

text \<open>
  What the \<^verbatim>\<open>catch\<close> clause can receive: a \<^verbatim>\<open>ZodError\<close> (the only values for which
  \<^verbatim>\<open>error instanceof z.ZodError\<close> holds) or another error object.
\<close>

datatype thrown = ZodError zod_issue | Error js_error

text \<open>
  \<^verbatim>\<open>result.response.text()\<close> of a fulfilled provider call either returns the text or throws
  (the provider's client throws there when the response was blocked).
\<close>

datatype gen_result = Text js_string | Text_throws js_error

datatype settlement = Fulfilled gen_result | Rejected js_error

text \<open>
  The behaviour of the one call \<^verbatim>\<open>model.generateContent(masterPrompt)\<close> relative to the
  timer set with \<^verbatim>\<open>REQUEST_TIMEOUT\<close>: either the call settles before the timer callback
  runs, or the timer callback runs first, and the call may settle later or never.
\<close>

datatype provider_behaviour =
    Settles_first settlement
  | Timer_first "settlement option"

section \<open>The fixed texts of the handler\<close>

text \<open>
  The template literals and string literals of the \<^verbatim>\<open>/enhance\<close> handler, code unit by code
  unit.  \<open>masterPrompt_head\<close> and \<open>masterPrompt_tail\<close> are the two halves of the prompt
  template around the interpolated idea text; the \<open>_head\<close>, \<open>_default\<close> and \<open>_tail\<close>
  constants of the error texts are the parts around \<^verbatim>\<open>${error.message || '...'}\<close>.
  \<open>quota_text_flash\<close> and \<open>connecting_error_text\<close> belong to the shorter variant of the
  handler.
\<close>

definition masterPrompt_head :: js_string where
  \<open>masterPrompt_head =
     ascii ''\<newline>      Act as an elite Product Development Team.\<newline>''
     @ ascii ''      Analyze the following web app idea: ''
     @ [0x22]\<close>

definition masterPrompt_tail :: js_string where
  \<open>masterPrompt_tail =
     [0x22]
     @ ascii ''.\<newline>      Output the result in Markdown format exactly as reques''
     @ ascii ''ted previously.\<newline>      ... (Keep prompts concise to save tokens''
     @ ascii '') ...\<newline>      \<newline>''
     @ ascii ''      # ''
     @ [0x26A1]
     @ ascii '' Vibe Coder Blueprint\<newline>''
     @ ascii ''      ## ''
     @ [0xD83D, 0xDCA1]
     @ ascii '' Strategy & Concept\<newline>      * **Project Name:** [Name]\<newline>''
     @ ascii ''      * **Value Proposition:** [Value]\<newline>''
     @ ascii ''      * **Core Features:** [Features]\<newline>''
     @ ascii ''      ## ''
     @ [0xD83D, 0xDEE0]
     @ ascii '' Tech Architecture\<newline>      * **Frontend:** [Stack]\<newline>''
     @ ascii ''      * **Backend:** [Stack]\<newline>''
     @ ascii ''      ## ''
     @ [0xD83C, 0xDFA8]
     @ ascii '' UI/UX Direction\<newline>      * **Vibe:** [Vibe]\<newline>''
     @ ascii ''      * **Color Palette:** [Colors]\<newline>''
     @ ascii ''      * **Typography:** [Fonts]\<newline>''
     @ ascii ''    ''\<close>

definition log_processing_head :: js_string where
  \<open>log_processing_head =
     ascii ''Processing Request for: ''
     @ [0x22]\<close>

definition log_processing_tail :: js_string where
  \<open>log_processing_tail =
     [0x22]\<close>

definition timeout_message :: js_string where
  \<open>timeout_message =
     ascii ''Request timeout''\<close>

definition timed_out_text :: js_string where
  \<open>timed_out_text =
     [0x26A0, 0xFE0F]
     @ ascii '' Request timed out.''\<close>

definition invalid_input_text :: js_string where
  \<open>invalid_input_text =
     ascii ''Invalid input''\<close>

definition api_key_error_head :: js_string where
  \<open>api_key_error_head =
     ascii ''# ''
     @ [0x26A0, 0xFE0F]
     @ ascii '' API Key Error\<newline>\<newline>''
     @ ascii ''Your Gemini API key has been disabled or is invalid. Please:\<newline>''
     @ ascii ''1. Generate a new API key from [Google AI Studio](https://aistudio.goog''
     @ ascii ''le.com/app/apikey)\<newline>2. Update the ''
     @ [0x60]
     @ ascii ''GEMINI_API_KEY''
     @ [0x60]
     @ ascii '' environment variable on Render\<newline>''
     @ ascii ''3. Redeploy your service\<newline>''
     @ ascii ''\<newline>**Error:** ''\<close>

definition api_key_error_default :: js_string where
  \<open>api_key_error_default =
     ascii ''API key invalid or leaked''\<close>

definition quota_text :: js_string where
  \<open>quota_text =
     ascii ''# ''
     @ [0x26A0, 0xFE0F]
     @ ascii '' Quota Exceeded\<newline>\<newline>''
     @ ascii ''**Gemini API** is currently busy. Please try again in 1 minute.\<newline>''
     @ ascii ''\<newline>*(This is a fallback response)*''\<close>

definition configuration_error_head :: js_string where
  \<open>configuration_error_head =
     ascii ''# ''
     @ [0x26A0, 0xFE0F]
     @ ascii '' Configuration Error\<newline>\<newline>''
     @ ascii ''There''
     @ [0x27]
     @ ascii ''s an issue with the API configuration. Please check:\<newline>''
     @ ascii ''- Model name is valid\<newline>''
     @ ascii ''- API key is correct\<newline>\<newline>''
     @ ascii ''**Error:** ''\<close>

definition configuration_error_default :: js_string where
  \<open>configuration_error_default =
     ascii ''Invalid configuration''\<close>

definition connecting_error_head :: js_string where
  \<open>connecting_error_head =
     ascii ''# ''
     @ [0x26A0, 0xFE0F]
     @ ascii '' Error Connecting to AI\<newline>''
     @ ascii ''\<newline>**Error:** ''\<close>

definition connecting_error_default :: js_string where
  \<open>connecting_error_default =
     ascii ''Unknown error''\<close>

definition connecting_error_tail :: js_string where
  \<open>connecting_error_tail =
     ascii ''\<newline>\<newline>Please check server logs for more details.''\<close>

definition quota_text_flash :: js_string where
  \<open>quota_text_flash =
     ascii ''# ''
     @ [0x26A0, 0xFE0F]
     @ ascii '' Quota Exceeded\<newline>\<newline>''
     @ ascii ''**Gemini 2.5 Flash** is currently busy. Please try again in 1 minute.\<newline>''
     @ ascii ''\<newline>*(This is a fallback response)*''\<close>

definition connecting_error_text :: js_string where
  \<open>connecting_error_text =
     [0x26A0, 0xFE0F]
     @ ascii '' Error connecting to AI.''\<close>

definition enhancement_error_label :: js_string where
  \<open>enhancement_error_label =
     ascii ''Enhancement error:''\<close>

definition api_key_error_label :: js_string where
  \<open>api_key_error_label =
     ascii ''API Key Error:''\<close>

definition api_configuration_error_label :: js_string where
  \<open>api_configuration_error_label =
     ascii ''API Configuration Error:''\<close>

definition unexpected_error_label :: js_string where
  \<open>unexpected_error_label =
     ascii ''Unexpected error details:''\<close>

definition masterPrompt :: "js_string \<Rightarrow> js_string" where
  "masterPrompt sanitizedInput = masterPrompt_head @ sanitizedInput @ masterPrompt_tail"

definition processing_line :: "js_string \<Rightarrow> js_string" where
  "processing_line sanitizedInput = log_processing_head @ sanitizedInput @ log_processing_tail"

text \<open>
  \<^verbatim>\<open>new Error('Request timeout')\<close>, the value the timer rejects with.  Its stack text is
  produced by the engine and is not modelled.
\<close>

definition timeout_error :: js_error where
  "timeout_error =
     \<lparr>message = Str timeout_message, stack = None, status = None, code = None,
      name = Some (ascii ''Error'')\<rparr>"

text \<open>
  \<^verbatim>\<open>await Promise.race([generatePromise, timeoutPromise])\<close>: the promise that settles first
  decides; \<open>Inl\<close> is the rejection the \<^verbatim>\<open>await\<close> throws, \<open>Inr\<close> the fulfilment value.
  What the provider call does after the timer has won is not looked at.
\<close>

fun promise_race :: "provider_behaviour \<Rightarrow> js_error + gen_result" where
  "promise_race (Settles_first (Fulfilled r)) = Inr r"
| "promise_race (Settles_first (Rejected e)) = Inl e"
| "promise_race (Timer_first later) = Inl timeout_error"

section \<open>Responses, log lines and the handler\<close>

text \<open>The JSON bodies the handler sends: \<^verbatim>\<open>{ enhanced: text }\<close> or \<^verbatim>\<open>{ error: text }\<close>.\<close>

datatype json_body = Enhanced js_string | Error_field js_string

record http_response =
  res_status :: nat
  res_json :: json_body

text \<open>
  A log line: \<^verbatim>\<open>logger.info(text)\<close>, or \<^verbatim>\<open>logger.error(label, meta)\<close> where the meta data
  is either the fields of the caught error or its message alone.
\<close>

datatype log_meta = Meta_error thrown | Meta_message js_message

datatype log_entry = Log_info js_string | Log_error js_string log_meta

text \<open>
  What one run of the handler does: the response it sends, the prompts it has passed to the
  provider, and the lines it has logged, in order.  The response is \<open>None\<close> when an
  exception leaves the handler and the handler has sent nothing.
\<close>

record outcome =
  response :: "http_response option"
  provider_calls :: "js_string list"
  logged :: "log_entry list"

text \<open>
  \<^verbatim>\<open>error.message?.includes(p)\<close>: the optional chaining stops at a nullish message, and the
  result is then falsy; a string is searched; on any other message the call throws a
  \<^verbatim>\<open>TypeError\<close> (\<open>None\<close>), since the value has no \<^verbatim>\<open>includes\<close> method.
\<close>

definition message_includes :: "js_error \<Rightarrow> js_string \<Rightarrow> bool option" where
  "message_includes e p =
     (case message e of
        Nullish \<Rightarrow> Some False
      | Str m \<Rightarrow> Some (includes_str m p)
      | Not_string truthy text \<Rightarrow> None)"

text \<open>
  \<^verbatim>\<open>a || b\<close> on conditions that may throw: \<open>b\<close> is evaluated only when \<open>a\<close> is false.
\<close>

fun or_else :: "bool option \<Rightarrow> bool option \<Rightarrow> bool option" where
  "or_else None b = None"
| "or_else (Some True) b = Some True"
| "or_else (Some False) b = b"

text \<open>\<^verbatim>\<open>${error.message || d}\<close> inside a template literal.\<close>

definition message_or :: "js_error \<Rightarrow> js_string \<Rightarrow> js_string" where
  "message_or e d =
     (case message e of
        Nullish \<Rightarrow> d
      | Str m \<Rightarrow> if m = [] then d else m
      | Not_string truthy text \<Rightarrow> if truthy then text else d)"

text \<open>
  The conditions of the \<^verbatim>\<open>if\<close> statements of the \<^verbatim>\<open>catch\<close> clause, in source order.  The
  comparison with \<^verbatim>\<open>===\<close> never throws; the other three conditions are \<open>None\<close> when their
  evaluation throws.
\<close>

definition timeout_rule :: "js_error \<Rightarrow> bool" where
  "timeout_rule e = (message e = Str timeout_message)"

definition api_key_rule :: "js_error \<Rightarrow> bool option" where
  "api_key_rule e =
     or_else (Some (status e = Some 403))
       (or_else (message_includes e (ascii ''API key''))
          (or_else (message_includes e (ascii ''leaked''))
             (message_includes e (ascii ''403''))))"

definition quota_rule :: "js_error \<Rightarrow> bool option" where
  "quota_rule e = or_else (Some (status e = Some 429)) (message_includes e (ascii ''429''))"

definition configuration_rule :: "js_error \<Rightarrow> bool option" where
  "configuration_rule e =
     or_else (Some (status e = Some 400))
       (or_else (message_includes e (ascii ''model''))
          (message_includes e (ascii ''invalid'')))"

text \<open>The responses of the handler.  \<^verbatim>\<open>res.json(...)\<close> without \<^verbatim>\<open>res.status\<close> sends 200.\<close>

definition invalid_input_response :: http_response where
  "invalid_input_response = \<lparr>res_status = 400, res_json = Error_field invalid_input_text\<rparr>"

definition timed_out_response :: http_response where
  "timed_out_response = \<lparr>res_status = 408, res_json = Enhanced timed_out_text\<rparr>"

definition api_key_response :: "js_error \<Rightarrow> http_response" where
  "api_key_response e =
     \<lparr>res_status = 500,
      res_json = Enhanced (api_key_error_head @ message_or e api_key_error_default)\<rparr>"

definition quota_response :: http_response where
  "quota_response = \<lparr>res_status = 200, res_json = Enhanced quota_text\<rparr>"

definition configuration_response :: "js_error \<Rightarrow> http_response" where
  "configuration_response e =
     \<lparr>res_status = 500,
      res_json = Enhanced (configuration_error_head @ message_or e configuration_error_default)\<rparr>"

definition connecting_response :: "js_error \<Rightarrow> http_response" where
  "connecting_response e =
     \<lparr>res_status = 500,
      res_json = Enhanced (connecting_error_head @ message_or e connecting_error_default
                           @ connecting_error_tail)\<rparr>"

definition success_response :: "js_string \<Rightarrow> http_response" where
  "success_response finalOutput = \<lparr>res_status = 200, res_json = Enhanced finalOutput\<rparr>"

text \<open>
  The outer \<^verbatim>\<open>catch (error)\<close> clause: the lines it logs and the response it sends.  No
  branch rethrows, but the evaluation of a condition can throw; then the lines logged so
  far stay, nothing is sent (\<open>None\<close>) and the exception leaves the handler.
\<close>

fun catch_block :: "thrown \<Rightarrow> log_entry list \<times> http_response option" where
  "catch_block (ZodError issue) =
     ([Log_error enhancement_error_label (Meta_error (ZodError issue))],
      Some invalid_input_response)"
| "catch_block (Error e) =
     (if timeout_rule e then
        ([Log_error enhancement_error_label (Meta_error (Error e))], Some timed_out_response)
      else case api_key_rule e of
        None \<Rightarrow> ([Log_error enhancement_error_label (Meta_error (Error e))], None)
      | Some True \<Rightarrow>
          ([Log_error enhancement_error_label (Meta_error (Error e)),
            Log_error api_key_error_label (Meta_message (message e))],
           Some (api_key_response e))
      | Some False \<Rightarrow>
         (case quota_rule e of
            None \<Rightarrow> ([Log_error enhancement_error_label (Meta_error (Error e))], None)
          | Some True \<Rightarrow>
              ([Log_error enhancement_error_label (Meta_error (Error e))], Some quota_response)
          | Some False \<Rightarrow>
             (case configuration_rule e of
                None \<Rightarrow> ([Log_error enhancement_error_label (Meta_error (Error e))], None)
              | Some True \<Rightarrow>
                  ([Log_error enhancement_error_label (Meta_error (Error e)),
                    Log_error api_configuration_error_label (Meta_message (message e))],
                   Some (configuration_response e))
              | Some False \<Rightarrow>
                  ([Log_error enhancement_error_label (Meta_error (Error e)),
                    Log_error unexpected_error_label (Meta_error (Error e))],
                   Some (connecting_response e)))))"

definition caught :: "js_string list \<Rightarrow> log_entry list \<Rightarrow> thrown \<Rightarrow> outcome" where
  "caught calls lines t =
     \<lparr>response = snd (catch_block t), provider_calls = calls,
      logged = lines @ fst (catch_block t)\<rparr>"

text \<open>
  The handler of \<^verbatim>\<open>POST /enhance\<close>.  \<open>purify\<close> is \<^verbatim>\<open>DOMPurifyInstance.sanitize\<close> and
  \<open>generateContent\<close> the provider call, both created once at start-up and used by every
  request.  The inner \<^verbatim>\<open>catch (raceError)\<close> answers a rejection whose message is
  \<^verbatim>\<open>'Request timeout'\<close> itself and rethrows every other one to the outer clause.
\<close>

definition post_enhance ::
  "(js_string \<Rightarrow> js_string) \<Rightarrow> (js_string \<Rightarrow> provider_behaviour) \<Rightarrow> js_value \<Rightarrow> outcome" where
  "post_enhance purify generateContent body =
     (case enhanceRequestSchema_parse body of
        Inl issue \<Rightarrow> caught [] [] (ZodError issue)
      | Inr input \<Rightarrow>
          (let sanitizedInput = purify input;
               lines = [Log_info (processing_line sanitizedInput)];
               calls = [masterPrompt sanitizedInput]
           in case promise_race (generateContent (masterPrompt sanitizedInput)) of
                Inl raceError \<Rightarrow>
                  if message raceError = Str timeout_message then
                    \<lparr>response = Some timed_out_response, provider_calls = calls,
                     logged = lines\<rparr>
                  else caught calls lines (Error raceError)
              | Inr (Text finalOutput) \<Rightarrow>
                  \<lparr>response = Some (success_response finalOutput), provider_calls = calls,
                   logged = lines\<rparr>
              | Inr (Text_throws e) \<Rightarrow> caught calls lines (Error e)))"

text \<open>
  The shorter variant of the handler: no inner \<^verbatim>\<open>catch\<close>, and a \<^verbatim>\<open>catch\<close> clause that
  knows the validation, timeout and quota cases only and answers everything else with one
  fixed text.
\<close>

fun catch_block_short :: "thrown \<Rightarrow> log_entry list \<times> http_response option" where
  "catch_block_short (ZodError issue) =
     ([Log_error enhancement_error_label (Meta_error (ZodError issue))],
      Some invalid_input_response)"
| "catch_block_short (Error e) =
     ([Log_error enhancement_error_label (Meta_error (Error e))],
      if timeout_rule e then Some timed_out_response
      else case quota_rule e of
        None \<Rightarrow> None
      | Some True \<Rightarrow> Some \<lparr>res_status = 200, res_json = Enhanced quota_text_flash\<rparr>
      | Some False \<Rightarrow> Some \<lparr>res_status = 500, res_json = Enhanced connecting_error_text\<rparr>)"

definition caught_short :: "js_string list \<Rightarrow> log_entry list \<Rightarrow> thrown \<Rightarrow> outcome" where
  "caught_short calls lines t =
     \<lparr>response = snd (catch_block_short t), provider_calls = calls,
      logged = lines @ fst (catch_block_short t)\<rparr>"

definition post_enhance_short ::
  "(js_string \<Rightarrow> js_string) \<Rightarrow> (js_string \<Rightarrow> provider_behaviour) \<Rightarrow> js_value \<Rightarrow> outcome" where
  "post_enhance_short purify generateContent body =
     (case enhanceRequestSchema_parse body of
        Inl issue \<Rightarrow> caught_short [] [] (ZodError issue)
      | Inr input \<Rightarrow>
          (let sanitizedInput = purify input;
               lines = [Log_info (processing_line sanitizedInput)];
               calls = [masterPrompt sanitizedInput]
           in case promise_race (generateContent (masterPrompt sanitizedInput)) of
                Inl e \<Rightarrow> caught_short calls lines (Error e)
              | Inr (Text finalOutput) \<Rightarrow>
                  \<lparr>response = Some (success_response finalOutput), provider_calls = calls,
                   logged = lines\<rparr>
              | Inr (Text_throws e) \<Rightarrow> caught_short calls lines (Error e)))"

section \<open>The sanitizer\<close>

text \<open>
  Modelled from the spec: the lower-casing of ASCII letters used by the model of the
  sanitizer below (whose code, the DOMPurify library, is not among the source files) to
  recognise the tag name \<^verbatim>\<open>script\<close> in either case.
\<close>

definition lower_ascii :: "16 word \<Rightarrow> 16 word" where
  "lower_ascii c = (if 0x41 \<le> c \<and> c \<le> 0x5A then c + 0x20 else c)"

text \<open>
  Modelled from the spec: the first pass of the sanitizer (DOMPurify, not among the source
  files), ``removing ... script-executable content''.  Every script element goes with its
  content: from \<^verbatim>\<open><script\<close> up to the closing \<^verbatim>\<open></script\<close> tag, which the second pass
  removes, or to the end of the text when the element is not closed.
\<close>

fun strip_scripts :: "bool \<Rightarrow> js_string \<Rightarrow> js_string" where
  "strip_scripts in_script [] = []"
| "strip_scripts False (c # cs) =
     (if startsWith (map lower_ascii (c # cs)) (ascii ''<script'') then strip_scripts True cs
      else c # strip_scripts False cs)"
| "strip_scripts True (c # cs) =
     (if startsWith (map lower_ascii (c # cs)) (ascii ''</script'') then c # strip_scripts False cs
      else strip_scripts True cs)"

text \<open>
  Modelled from the spec: the second pass of the sanitizer (DOMPurify, not among the source
  files), ``removing markup''.  Every tag goes, that is every stretch from \<^verbatim>\<open><\<close> to the
  next \<^verbatim>\<open>>\<close>, or to the end of the text when there is none.
\<close>

fun strip_tags :: "bool \<Rightarrow> js_string \<Rightarrow> js_string" where
  "strip_tags in_tag [] = []"
| "strip_tags False (c # cs) =
     (if c = 0x3C then strip_tags True cs else c # strip_tags False cs)"
| "strip_tags True (c # cs) =
     (if c = 0x3E then strip_tags False cs else strip_tags True cs)"

text \<open>
  Modelled from the spec: \<^verbatim>\<open>DOMPurifyInstance.sanitize\<close>, the sanitizer of the DOMPurify
  library, which the handler calls and whose code is not among the source files.  The spec
  describes it as ``an HTML/script-stripping sanitizer (removing markup and
  script-executable content)'': script elements are removed first, then all tags.
\<close>

definition DOMPurify_sanitize :: "js_string \<Rightarrow> js_string" where
  "DOMPurify_sanitize dirty = strip_tags False (strip_scripts False dirty)"

text \<open>A text contains a markup tag when a \<^verbatim>\<open><\<close> in it is followed, somewhere, by a \<^verbatim>\<open>>\<close>.\<close>

fun contains_tag :: "js_string \<Rightarrow> bool" where
  "contains_tag [] = False"
| "contains_tag (c # cs) = ((c = 0x3C \<and> 0x3E \<in> set cs) \<or> contains_tag cs)"

section \<open>Notions used to state the properties\<close>

text \<open>The string a request sends as \<^verbatim>\<open>input\<close>, when its body is an object that has one.\<close>

fun sent_input :: "js_value \<Rightarrow> js_string option" where
  "sent_input (JObject kvs) =
     (case get_property kvs key_input of JString s \<Rightarrow> Some s | _ \<Rightarrow> None)"
| "sent_input _ = None"

text \<open>
  The error, if there is one, that the provider call hands to the handler before the timer
  callback runs: the rejection of the call, or what \<^verbatim>\<open>result.response.text()\<close> throws.
\<close>

fun provider_error :: "provider_behaviour \<Rightarrow> js_error option" where
  "provider_error (Settles_first (Rejected e)) = Some e"
| "provider_error (Settles_first (Fulfilled (Text_throws e))) = Some e"
| "provider_error (Settles_first (Fulfilled (Text finalOutput))) = None"
| "provider_error (Timer_first later) = None"

text \<open>
  The error classification as the spec words it: a priority list of rules, each a condition
  on the error with the response it selects; the first rule whose condition holds decides,
  and the generic response is the fallback.  A condition whose evaluation throws ends the
  classification without a response.
\<close>

fun first_match ::
  "((js_error \<Rightarrow> bool option) \<times> (js_error \<Rightarrow> http_response)) list
     \<Rightarrow> (js_error \<Rightarrow> http_response) \<Rightarrow> js_error \<Rightarrow> http_response option" where
  "first_match [] fallback e = Some (fallback e)"
| "first_match ((applies, respond) # rules) fallback e =
     (case applies e of
        None \<Rightarrow> None
      | Some True \<Rightarrow> Some (respond e)
      | Some False \<Rightarrow> first_match rules fallback e)"

definition fixed :: "http_response \<Rightarrow> js_error \<Rightarrow> http_response" where
  "fixed r e = r"

definition never_throws :: "(js_error \<Rightarrow> bool) \<Rightarrow> js_error \<Rightarrow> bool option" where
  "never_throws applies e = Some (applies e)"

definition priority_list ::
  "((js_error \<Rightarrow> bool option) \<times> (js_error \<Rightarrow> http_response)) list" where
  "priority_list =
     [(never_throws timeout_rule, fixed timed_out_response),
      (api_key_rule, api_key_response),
      (quota_rule, fixed quota_response),
      (configuration_rule, configuration_response)]"

section \<open>Concrete requests, providers and errors\<close>

text \<open>A provider that behaves the same way whatever the prompt.\<close>

definition always :: "provider_behaviour \<Rightarrow> js_string \<Rightarrow> provider_behaviour" where
  "always b prompt = b"

definition body_with_input :: "js_string \<Rightarrow> js_value" where
  "body_with_input s = JObject [(key_input, JString s)]"

definition photographer_idea :: js_string where
  "photographer_idea = ascii ''A portfolio website for a photographer''"

definition script_text :: js_string where
  "script_text = ascii ''<script>alert(1)</script>''"

definition markup_text :: js_string where
  "markup_text = ascii ''My <b>shop</b><script>x()</script> idea''"

definition plan_text :: js_string where
  "plan_text = ascii ''# Blueprint <b>bold</b>''"

text \<open>An error object with the given message and HTTP status and nothing else.\<close>

definition error_with :: "js_string \<Rightarrow> nat option \<Rightarrow> js_error" where
  "error_with m st =
     \<lparr>message = Str m, stack = None, status = st, code = None, name = None\<rparr>"

definition space_text :: js_string where
  "space_text = [0x20]"

definition long_text :: js_string where
  "long_text = replicate 1001 0x61"

definition quota_error :: js_error where
  "quota_error =
     error_with (ascii ''[429 Too Many Requests] Resource has been exhausted'') (Some 429)"

definition leaked_key_error :: js_error where
  "leaked_key_error = error_with (ascii ''key AIzaSy-secret was reported as leaked'') (Some 403)"

definition traced_key_error :: js_error where
  "traced_key_error =
     leaked_key_error\<lparr>stack := Some (ascii ''at fetch (index.js:1)''), code := None,
                      name := Some (ascii ''Error'')\<rparr>"

definition overlapping_error :: js_error where
  "overlapping_error = error_with (ascii ''429: invalid API key for model'') (Some 429)"


text \<open>Providers for the concrete runs below.\<close>

definition answers_plan :: "js_string \<Rightarrow> provider_behaviour" where
  "answers_plan = always (Settles_first (Fulfilled (Text plan_text)))"

definition answers_plan_late :: "js_string \<Rightarrow> provider_behaviour" where
  "answers_plan_late = always (Timer_first (Some (Fulfilled (Text plan_text))))"

definition rejects_with :: "js_error \<Rightarrow> js_string \<Rightarrow> provider_behaviour" where
  "rejects_with e = always (Settles_first (Rejected e))"

section \<open>Auxiliary facts\<close>

lemma length_trim_le: "length (trim s) \<le> length s"
proof -
  have "length (trim s) \<le> length (dropWhile is_white_space s)"
    unfolding trim_def
    by (metis length_dropWhile_le length_rev)
  also have "\<dots> \<le> length s"
    by (rule length_dropWhile_le)
  finally show ?thesis .
qed

lemma parse_rejects:
  assumes "sent_input body = None
           \<or> (\<exists>s. sent_input body = Some s \<and> (length s = 0 \<or> 1000 < length s))"
  shows "\<exists>issue. enhanceRequestSchema_parse body = Inl issue"
proof (cases body)
  case (JObject kvs)
  with assms show ?thesis
    by (cases "get_property kvs key_input") auto
qed simp_all

lemma accepted_outcome:
  assumes "enhanceRequestSchema_parse body = Inr input"
  shows "provider_calls (post_enhance purify generateContent body) = [masterPrompt (purify input)]"
    and "\<exists>more. logged (post_enhance purify generateContent body)
           = Log_info (processing_line (purify input)) # more"
  using assms
  by (simp_all add: post_enhance_def Let_def caught_def split: sum.splits gen_result.splits)

lemma rejected_outcome:
  assumes "enhanceRequestSchema_parse body = Inl issue"
  shows "post_enhance purify generateContent body
           = \<lparr>response = Some invalid_input_response, provider_calls = [],
              logged = [Log_error enhancement_error_label (Meta_error (ZodError issue))]\<rparr>"
  using assms by (simp add: post_enhance_def caught_def)

lemma fulfilled_outcome:
  assumes "enhanceRequestSchema_parse body = Inr input"
    and "generateContent (masterPrompt (purify input)) = Settles_first (Fulfilled (Text T))"
  shows "post_enhance purify generateContent body
           = \<lparr>response = Some (success_response T),
              provider_calls = [masterPrompt (purify input)],
              logged = [Log_info (processing_line (purify input))]\<rparr>"
  using assms by (simp add: post_enhance_def Let_def)

lemma fulfilled_outcome_short:
  assumes "enhanceRequestSchema_parse body = Inr input"
    and "generateContent (masterPrompt (purify input)) = Settles_first (Fulfilled (Text T))"
  shows "post_enhance_short purify generateContent body
           = \<lparr>response = Some (success_response T),
              provider_calls = [masterPrompt (purify input)],
              logged = [Log_info (processing_line (purify input))]\<rparr>"
  using assms by (simp add: post_enhance_short_def Let_def)

lemma timer_outcome:
  assumes "enhanceRequestSchema_parse body = Inr input"
    and "generateContent (masterPrompt (purify input)) = Timer_first later"
  shows "post_enhance purify generateContent body
           = \<lparr>response = Some timed_out_response,
              provider_calls = [masterPrompt (purify input)],
              logged = [Log_info (processing_line (purify input))]\<rparr>"
  using assms by (simp add: post_enhance_def Let_def timeout_error_def)

lemma error_response:
  assumes "enhanceRequestSchema_parse body = Inr input"
    and "provider_error (generateContent (masterPrompt (purify input))) = Some e"
  shows "response (post_enhance purify generateContent body) = snd (catch_block (Error e))"
proof (cases "generateContent (masterPrompt (purify input))" rule: provider_error.cases)
  case (1 e')
  with assms show ?thesis
    by (simp add: post_enhance_def Let_def caught_def timeout_rule_def)
next
  case (2 e')
  with assms show ?thesis
    by (simp add: post_enhance_def Let_def caught_def)
qed (use assms in simp_all)

lemma error_logged:
  assumes "enhanceRequestSchema_parse body = Inr input"
    and "provider_error (generateContent (masterPrompt (purify input))) = Some e"
    and "\<not> timeout_rule e"
  shows "logged (post_enhance purify generateContent body)
           = Log_info (processing_line (purify input)) # fst (catch_block (Error e))"
proof (cases "generateContent (masterPrompt (purify input))" rule: provider_error.cases)
  case (1 e')
  with assms show ?thesis
    by (simp add: post_enhance_def Let_def caught_def timeout_rule_def)
next
  case (2 e')
  with assms show ?thesis
    by (simp add: post_enhance_def Let_def caught_def)
qed (use assms in simp_all)

lemma catch_block_logs_error:
  "Log_error enhancement_error_label (Meta_error (Error e)) \<in> set (fst (catch_block (Error e)))"
  by (simp split: option.splits bool.splits)

lemma catch_block_cases:
  "timeout_rule e \<Longrightarrow> snd (catch_block (Error e)) = Some timed_out_response"
  "\<not> timeout_rule e \<Longrightarrow> api_key_rule e = None \<Longrightarrow> snd (catch_block (Error e)) = None"
  "\<not> timeout_rule e \<Longrightarrow> api_key_rule e = Some True \<Longrightarrow>
     snd (catch_block (Error e)) = Some (api_key_response e)"
  "\<not> timeout_rule e \<Longrightarrow> api_key_rule e = Some False \<Longrightarrow> quota_rule e = Some True \<Longrightarrow>
     snd (catch_block (Error e)) = Some quota_response"
  "\<not> timeout_rule e \<Longrightarrow> api_key_rule e = Some False \<Longrightarrow> quota_rule e = Some False \<Longrightarrow>
     configuration_rule e = Some True \<Longrightarrow>
     snd (catch_block (Error e)) = Some (configuration_response e)"
  "\<not> timeout_rule e \<Longrightarrow> api_key_rule e = Some False \<Longrightarrow> quota_rule e = Some False \<Longrightarrow>
     configuration_rule e = Some False \<Longrightarrow>
     snd (catch_block (Error e)) = Some (connecting_response e)"
  by simp_all

lemma catch_block_first_match:
  "snd (catch_block (Error e)) = first_match priority_list connecting_response e"
  by (simp add: priority_list_def fixed_def never_throws_def split: option.splits bool.splits)

lemma trace_fields_unread:
  "timeout_rule (e\<lparr>stack := s, code := c, name := n\<rparr>) = timeout_rule e"
  "api_key_rule (e\<lparr>stack := s, code := c, name := n\<rparr>) = api_key_rule e"
  "quota_rule (e\<lparr>stack := s, code := c, name := n\<rparr>) = quota_rule e"
  "configuration_rule (e\<lparr>stack := s, code := c, name := n\<rparr>) = configuration_rule e"
  "message_or (e\<lparr>stack := s, code := c, name := n\<rparr>) d = message_or e d"
  by (simp_all add: timeout_rule_def api_key_rule_def quota_rule_def configuration_rule_def
      message_includes_def message_or_def)

lemma responses_ignore_trace:
  "api_key_response (e\<lparr>stack := s, code := c, name := n\<rparr>) = api_key_response e"
  "configuration_response (e\<lparr>stack := s, code := c, name := n\<rparr>) = configuration_response e"
  "connecting_response (e\<lparr>stack := s, code := c, name := n\<rparr>) = connecting_response e"
  by (simp_all add: api_key_response_def configuration_response_def connecting_response_def
      trace_fields_unread)

lemma catch_block_ignores_trace:
  "snd (catch_block (Error (e\<lparr>stack := s, code := c, name := n\<rparr>)))
     = snd (catch_block (Error e))"
proof -
  let ?e' = "e\<lparr>stack := s, code := c, name := n\<rparr>"
  have "snd (catch_block (Error ?e')) = first_match priority_list connecting_response ?e'"
    by (rule catch_block_first_match)
  also have "\<dots> = first_match priority_list connecting_response e"
    by (simp add: priority_list_def fixed_def never_throws_def trace_fields_unread
        responses_ignore_trace split: option.splits bool.splits)
  also have "\<dots> = snd (catch_block (Error e))"
    by (rule catch_block_first_match [symmetric])
  finally show ?thesis .
qed

lemma rules_of_text_message:
  assumes "message e = Nullish \<or> (\<exists>m. message e = Str m)"
  shows "api_key_rule e \<noteq> None" "quota_rule e \<noteq> None" "configuration_rule e \<noteq> None"
proof -
  have inc: "\<exists>b. message_includes e p = Some b" for p
    using assms by (auto simp: message_includes_def)
  obtain b1 b2 b3 b4 b5 b6 where b:
    "message_includes e (ascii ''API key'') = Some b1"
    "message_includes e (ascii ''leaked'') = Some b2"
    "message_includes e (ascii ''403'') = Some b3"
    "message_includes e (ascii ''429'') = Some b4"
    "message_includes e (ascii ''model'') = Some b5"
    "message_includes e (ascii ''invalid'') = Some b6"
    using inc by metis
  show "api_key_rule e \<noteq> None"
    unfolding api_key_rule_def b
    by (cases "status e = Some 403"; cases b1; cases b2; cases b3) simp_all
  show "quota_rule e \<noteq> None"
    unfolding quota_rule_def b
    by (cases "status e = Some 429"; cases b4) simp_all
  show "configuration_rule e \<noteq> None"
    unfolding configuration_rule_def b
    by (cases "status e = Some 400"; cases b5; cases b6) simp_all
qed

lemma catch_block_answers_text_message:
  assumes "message e = Nullish \<or> (\<exists>m. message e = Str m)"
  shows "\<exists>st t. snd (catch_block (Error e)) = Some \<lparr>res_status = st, res_json = Enhanced t\<rparr>
           \<and> st \<in> {200, 408, 500}"
  using rules_of_text_message [OF assms]
  by (auto simp: timed_out_response_def api_key_response_def quota_response_def
      configuration_response_def connecting_response_def split: option.splits bool.splits)

lemma answers_plan_at: "answers_plan prompt = Settles_first (Fulfilled (Text plan_text))"
  by (simp add: answers_plan_def always_def)

lemma answers_plan_late_at:
  "answers_plan_late prompt = Timer_first (Some (Fulfilled (Text plan_text)))"
  by (simp add: answers_plan_late_def always_def)

lemma rejects_with_at: "provider_error (rejects_with e prompt) = Some e"
  by (simp add: rejects_with_def always_def)

lemma parse_body_with_input:
  "enhanceRequestSchema_parse (body_with_input s)
     = (if length s < 1 then Inl (Too_small [key_input])
        else if 1000 < length s then Inl (Too_big [key_input]) else Inr (trim s))"
  by (simp add: body_with_input_def)

lemma trim_photographer: "trim photographer_idea = photographer_idea"
  by code_simp

lemma parse_photographer:
  "enhanceRequestSchema_parse (body_with_input photographer_idea) = Inr photographer_idea"
  by (simp add: parse_body_with_input trim_photographer) (simp add: photographer_idea_def ascii_def)

lemma startsWith_append: "startsWith xs p \<Longrightarrow> startsWith (xs @ ys) p"
  by (induction xs p rule: startsWith.induct) simp_all

lemma includes_str_append: "includes_str xs p \<Longrightarrow> includes_str (xs @ ys) p"
proof (induction xs)
  case Nil
  then show ?case by (cases ys) simp_all
next
  case (Cons x xs)
  then show ?case
    using startsWith_append [of "x # xs" p ys] by auto
qed

lemma no_open_bracket_strip_tags: "0x3C \<notin> set (strip_tags b s)"
  by (induction b s rule: strip_tags.induct) simp_all

lemma no_tag_without_open_bracket: "0x3C \<notin> set s \<Longrightarrow> \<not> contains_tag s"
  by (induction s) auto

lemma sanitize_no_tag: "\<not> contains_tag (DOMPurify_sanitize s)"
  unfolding DOMPurify_sanitize_def
  by (rule no_tag_without_open_bracket) (rule no_open_bracket_strip_tags)

lemma sanitize_script_text: "DOMPurify_sanitize script_text = []"
  by code_simp

lemma trim_script_text: "trim script_text = script_text"
  by code_simp

lemma length_script_text: "length script_text = 25"
  by (simp add: script_text_def ascii_def)

lemma parse_script_text:
  "enhanceRequestSchema_parse (body_with_input script_text) = Inr script_text"
  by (simp add: parse_body_with_input trim_script_text length_script_text)

lemma trim_space_text: "trim space_text = []"
  by code_simp

lemma sanitize_markup_text: "DOMPurify_sanitize markup_text = ascii ''My shop idea''"
  by code_simp

lemma trim_markup_text: "trim markup_text = markup_text"
  by code_simp

lemma parse_markup_text:
  "enhanceRequestSchema_parse (body_with_input markup_text) = Inr markup_text"
  by (simp add: parse_body_with_input trim_markup_text) (simp add: markup_text_def ascii_def)

lemma parse_space_text: "enhanceRequestSchema_parse (body_with_input space_text) = Inr []"
  by (simp add: parse_body_with_input trim_space_text) (simp add: space_text_def)

lemma quota_text_mentions_retry:
  "includes_str quota_text (ascii ''Please try again in 1 minute.'')"
  by code_simp

lemma api_key_head_mentions_new_key:
  "includes_str api_key_error_head (ascii ''Generate a new API key'')"
  by code_simp

lemma api_key_head_mentions_variable:
  "includes_str api_key_error_head (ascii ''Update the '' @ [0x60] @ ascii ''GEMINI_API_KEY'' @ [0x60] @ ascii '' environment variable'')"
  by code_simp

lemma quota_error_rules:
  "quota_rule quota_error = Some True" "\<not> timeout_rule quota_error"
  "api_key_rule quota_error = Some False"
  by code_simp+

lemma leaked_key_error_rules:
  "api_key_rule leaked_key_error = Some True" "\<not> timeout_rule leaked_key_error"
  by code_simp+

lemma overlapping_error_rules:
  "\<not> timeout_rule overlapping_error" "api_key_rule overlapping_error = Some True"
  "quota_rule overlapping_error = Some True" "configuration_rule overlapping_error = Some True"
  by code_simp+


section \<open>The input gate\<close>

text \<open>
  C1.  The claim asks that every input whose trimmed length is 0 be rejected with 400 before
  any call.  The handler at an input of one space: its trimmed length is 0, yet it passes
  the schema, whose \<^verbatim>\<open>min(1)\<close> check runs before \<^verbatim>\<open>trim\<close>; the provider is called with the
  prompt around the empty text and the answer is 200.
\<close>

theorem whitespace_only_input_reaches_provider:
  "length (trim space_text) = 0
   \<and> enhanceRequestSchema_parse (body_with_input space_text) = Inr []
   \<and> response (post_enhance id answers_plan (body_with_input space_text))
       = Some \<lparr>res_status = 200, res_json = Enhanced plan_text\<rparr>
   \<and> provider_calls (post_enhance id answers_plan (body_with_input space_text))
       = [masterPrompt []]"
proof -
  have g: "answers_plan (masterPrompt (id [])) = Settles_first (Fulfilled (Text plan_text))"
    by (rule answers_plan_at)
  show ?thesis
    using fulfilled_outcome [where purify = id and generateContent = answers_plan,
        OF parse_space_text g] parse_space_text
    by (simp add: trim_space_text success_response_def)
qed

text \<open>
  The rejections of the gate: a body that is not an object with a string \<^verbatim>\<open>input\<close>, an
  empty input, and an input whose trimmed length exceeds 1000 are answered with 400 and
  \<^verbatim>\<open>{ error: 'Invalid input' }\<close>, and the provider is not called.
\<close>

lemma input_gate_rejects:
  assumes "sent_input body = None
           \<or> (\<exists>s. sent_input body = Some s \<and> (length s = 0 \<or> 1000 < length (trim s)))"
  shows "response (post_enhance purify generateContent body)
           = Some \<lparr>res_status = 400, res_json = Error_field invalid_input_text\<rparr>
       \<and> provider_calls (post_enhance purify generateContent body) = []"
proof -
  have "1000 < length s" if "1000 < length (trim s)" for s
    using that length_trim_le [of s] by simp
  with assms have "sent_input body = None
           \<or> (\<exists>s. sent_input body = Some s \<and> (length s = 0 \<or> 1000 < length s))"
    by blast
  then obtain issue where "enhanceRequestSchema_parse body = Inl issue"
    using parse_rejects by blast
  then show ?thesis
    by (simp add: rejected_outcome invalid_input_response_def)
qed

text \<open>
  C3.  For every validated input, the value interpolated into the prompt template and into
  the logged line is the sanitized one, and it contains no markup tag; a request that fails
  validation reaches neither the provider nor the line that logs the input.
\<close>

theorem sanitized_value_reaches_prompt:
  "(\<forall>input. enhanceRequestSchema_parse body = Inr input \<longrightarrow>
       provider_calls (post_enhance DOMPurify_sanitize generateContent body)
         = [masterPrompt (DOMPurify_sanitize input)]
       \<and> (\<exists>more. logged (post_enhance DOMPurify_sanitize generateContent body)
                   = Log_info (processing_line (DOMPurify_sanitize input)) # more)
       \<and> \<not> contains_tag (DOMPurify_sanitize input))
   \<and> (\<forall>issue. enhanceRequestSchema_parse body = Inl issue \<longrightarrow>
       provider_calls (post_enhance DOMPurify_sanitize generateContent body) = []
       \<and> logged (post_enhance DOMPurify_sanitize generateContent body)
           = [Log_error enhancement_error_label (Meta_error (ZodError issue))])"
proof (intro conjI allI impI)
  fix input
  assume p: "enhanceRequestSchema_parse body = Inr input"
  show "provider_calls (post_enhance DOMPurify_sanitize generateContent body)
          = [masterPrompt (DOMPurify_sanitize input)]"
    by (rule accepted_outcome(1) [OF p])
  show "\<exists>more. logged (post_enhance DOMPurify_sanitize generateContent body)
                   = Log_info (processing_line (DOMPurify_sanitize input)) # more"
    by (rule accepted_outcome(2) [OF p])
  show "\<not> contains_tag (DOMPurify_sanitize input)"
    by (rule sanitize_no_tag)
next
  fix issue
  assume p: "enhanceRequestSchema_parse body = Inl issue"
  show "provider_calls (post_enhance DOMPurify_sanitize generateContent body) = []"
    by (simp add: rejected_outcome [OF p])
  show "logged (post_enhance DOMPurify_sanitize generateContent body)
           = [Log_error enhancement_error_label (Meta_error (ZodError issue))]"
    by (simp add: rejected_outcome [OF p])
qed

text \<open>An idea with markup and a script element in it reaches the prompt as plain text.\<close>

theorem sanitized_value_reaches_prompt_witness:
  "enhanceRequestSchema_parse (body_with_input markup_text) = Inr markup_text
   \<and> contains_tag markup_text
   \<and> provider_calls (post_enhance DOMPurify_sanitize answers_plan (body_with_input markup_text))
       = [masterPrompt (ascii ''My shop idea'')]
   \<and> \<not> contains_tag (ascii ''My shop idea'')"
proof -
  have "contains_tag markup_text"
    by code_simp
  then show ?thesis
    using sanitized_value_reaches_prompt [of "body_with_input markup_text" answers_plan]
      parse_markup_text sanitize_markup_text
    by simp
qed

text \<open>
  C10.  The input \<^verbatim>\<open><script>alert(1)</script>\<close>, 25 code units long, passes validation and
  its sanitized form is empty; the sanitized value is not validated again, so the provider
  is called with the prompt around an empty idea text.  The same holds for every validated
  input that a sanitizer maps to the empty string.
\<close>

theorem empty_sanitized_input_still_sent:
  "enhanceRequestSchema_parse (body_with_input script_text) = Inr script_text
   \<and> length script_text = 25
   \<and> DOMPurify_sanitize script_text = []
   \<and> provider_calls (post_enhance DOMPurify_sanitize generateContent (body_with_input script_text))
       = [masterPrompt_head @ masterPrompt_tail]
   \<and> (\<forall>purify body input.
         enhanceRequestSchema_parse body = Inr input \<and> purify input = [] \<longrightarrow>
           provider_calls (post_enhance purify generateContent body) = [masterPrompt []])"
proof -
  have "provider_calls (post_enhance DOMPurify_sanitize generateContent (body_with_input script_text))
       = [masterPrompt_head @ masterPrompt_tail]"
    using accepted_outcome(1) [OF parse_script_text, of DOMPurify_sanitize generateContent]
    by (simp add: sanitize_script_text masterPrompt_def)
  moreover have "provider_calls (post_enhance purify generateContent body) = [masterPrompt []]"
    if "enhanceRequestSchema_parse body = Inr input" and "purify input = []"
    for purify body input
    using accepted_outcome(1) [OF that(1), of purify generateContent] that(2) by simp
  ultimately show ?thesis
    using parse_script_text length_script_text sanitize_script_text by blast
qed

text \<open>The general part at an input of one space, which the identity already leaves empty.\<close>

theorem empty_sanitized_input_still_sent_witness:
  "enhanceRequestSchema_parse (body_with_input space_text) = Inr [] \<and> id [] = ([] :: js_string)
   \<and> provider_calls (post_enhance id answers_plan_late (body_with_input space_text))
       = [masterPrompt []]"
  using empty_sanitized_input_still_sent [of answers_plan_late] parse_space_text
  by (metis id_apply)

section \<open>The call, the race and the successful answer\<close>

text \<open>
  C2.  When the timer callback runs before the provider call has settled, the response is
  408 with the body \<^verbatim>\<open>{ enhanced: "(warning sign) Request timed out." }\<close>, whatever the
  provider call does afterwards (\<open>later\<close>: it may fulfil, reject or never settle).
\<close>

theorem timeout_answers_408:
  assumes "enhanceRequestSchema_parse body = Inr input"
    and "generateContent (masterPrompt (purify input)) = Timer_first later"
  shows "response (post_enhance purify generateContent body)
           = Some \<lparr>res_status = 408, res_json = Enhanced timed_out_text\<rparr>
       \<and> timed_out_text = [0x26A0, 0xFE0F] @ ascii '' Request timed out.''"
  using timer_outcome [where purify = purify and generateContent = generateContent, OF assms]
  by (simp add: timed_out_response_def timed_out_text_def)

text \<open>A provider that answers with a plan only after the timer has fired.\<close>

theorem timeout_answers_408_witness:
  "enhanceRequestSchema_parse (body_with_input photographer_idea) = Inr photographer_idea
   \<and> answers_plan_late (masterPrompt (id photographer_idea))
       = Timer_first (Some (Fulfilled (Text plan_text)))
   \<and> response (post_enhance id answers_plan_late (body_with_input photographer_idea))
       = Some \<lparr>res_status = 408, res_json = Enhanced timed_out_text\<rparr>"
proof -
  have g: "answers_plan_late (masterPrompt (id photographer_idea))
       = Timer_first (Some (Fulfilled (Text plan_text)))"
    by (rule answers_plan_late_at)
  show ?thesis
    using timeout_answers_408 [where purify = id and generateContent = answers_plan_late,
        OF parse_photographer g] parse_photographer g
    by simp
qed

text \<open>
  C4.  When the provider call fulfils before the timer and its text is \<open>T\<close>, the response is
  200 and its \<^verbatim>\<open>enhanced\<close> field is \<open>T\<close> itself, in both variants of the handler: the
  sanitizer is not applied to it and nothing else changes it.
\<close>

theorem provider_text_returned_unmodified:
  assumes "enhanceRequestSchema_parse body = Inr input"
    and "generateContent (masterPrompt (purify input)) = Settles_first (Fulfilled (Text T))"
  shows "response (post_enhance purify generateContent body)
           = Some \<lparr>res_status = 200, res_json = Enhanced T\<rparr>
       \<and> response (post_enhance_short purify generateContent body)
           = Some \<lparr>res_status = 200, res_json = Enhanced T\<rparr>"
  using fulfilled_outcome [where purify = purify and generateContent = generateContent, OF assms]
    fulfilled_outcome_short [where purify = purify and generateContent = generateContent, OF assms]
  by (simp add: success_response_def)

text \<open>
  The photographer scenario; the returned text contains markup and comes back as it is, even
  with the sanitizer in place.
\<close>

theorem provider_text_returned_unmodified_witness:
  "enhanceRequestSchema_parse (body_with_input photographer_idea) = Inr photographer_idea
   \<and> answers_plan (masterPrompt (DOMPurify_sanitize photographer_idea))
       = Settles_first (Fulfilled (Text plan_text))
   \<and> contains_tag plan_text
   \<and> response (post_enhance DOMPurify_sanitize answers_plan (body_with_input photographer_idea))
       = Some \<lparr>res_status = 200, res_json = Enhanced plan_text\<rparr>
   \<and> response (post_enhance_short DOMPurify_sanitize answers_plan
        (body_with_input photographer_idea))
       = Some \<lparr>res_status = 200, res_json = Enhanced plan_text\<rparr>"
proof -
  have g: "answers_plan (masterPrompt (DOMPurify_sanitize photographer_idea))
       = Settles_first (Fulfilled (Text plan_text))"
    by (rule answers_plan_at)
  have c: "contains_tag plan_text"
    by code_simp
  show ?thesis
    using provider_text_returned_unmodified
      [where purify = DOMPurify_sanitize and generateContent = answers_plan,
        OF parse_photographer g] parse_photographer g c
    by simp
qed

section \<open>The classification of errors\<close>

text \<open>
  C5.  When the provider error carries the quota signal (status 429, or \<^verbatim>\<open>429\<close> in its
  message) and neither the timeout rule nor the credential rule applies to it, the response
  status is 200 and the \<^verbatim>\<open>enhanced\<close> field is the quota fallback text, which asks to try
  again in one minute.
\<close>

theorem quota_error_answers_200:
  assumes "enhanceRequestSchema_parse body = Inr input"
    and "provider_error (generateContent (masterPrompt (purify input))) = Some e"
    and "quota_rule e = Some True"
    and "\<not> timeout_rule e"
    and "api_key_rule e = Some False"
  shows "response (post_enhance purify generateContent body)
           = Some \<lparr>res_status = 200, res_json = Enhanced quota_text\<rparr>
       \<and> includes_str quota_text (ascii ''Please try again in 1 minute.'')"
  using error_response [where purify = purify and generateContent = generateContent,
      OF assms(1,2)] assms(3-5) quota_text_mentions_retry
  by (simp add: quota_response_def)

theorem quota_error_answers_200_witness:
  "enhanceRequestSchema_parse (body_with_input photographer_idea) = Inr photographer_idea
   \<and> provider_error (rejects_with quota_error (masterPrompt (id photographer_idea)))
       = Some quota_error
   \<and> quota_rule quota_error = Some True \<and> \<not> timeout_rule quota_error
   \<and> api_key_rule quota_error = Some False
   \<and> response (post_enhance id (rejects_with quota_error) (body_with_input photographer_idea))
       = Some \<lparr>res_status = 200, res_json = Enhanced quota_text\<rparr>"
  using quota_error_answers_200
      [where purify = id and generateContent = "rejects_with quota_error",
        OF parse_photographer rejects_with_at quota_error_rules]
    parse_photographer rejects_with_at quota_error_rules
  by simp

text \<open>
  C6.  When the provider reports a credential failure, the response status is 500 and the
  \<^verbatim>\<open>enhanced\<close> text tells to generate a new API key and to update the \<^verbatim>\<open>GEMINI_API_KEY\<close>
  environment variable.  In the ordered classification a credential failure is an error
  that is not a timeout, the case the list names first, and that carries the credential
  signal: status 403, or \<^verbatim>\<open>API key\<close>, \<^verbatim>\<open>leaked\<close> or \<^verbatim>\<open>403\<close> in its message.
\<close>

theorem credential_error_answers_500:
  assumes "enhanceRequestSchema_parse body = Inr input"
    and "provider_error (generateContent (masterPrompt (purify input))) = Some e"
    and "api_key_rule e = Some True"
    and "\<not> timeout_rule e"
  shows "\<exists>t. response (post_enhance purify generateContent body)
               = Some \<lparr>res_status = 500, res_json = Enhanced t\<rparr>
            \<and> includes_str t (ascii ''Generate a new API key'')
            \<and> includes_str t (ascii ''Update the '' @ [0x60] @ ascii ''GEMINI_API_KEY''
                                @ [0x60] @ ascii '' environment variable'')"
proof -
  let ?t = "api_key_error_head @ message_or e api_key_error_default"
  have "response (post_enhance purify generateContent body)
          = Some \<lparr>res_status = 500, res_json = Enhanced ?t\<rparr>"
    using error_response [where purify = purify and generateContent = generateContent,
        OF assms(1,2)] assms(3,4)
    by (simp add: api_key_response_def)
  moreover have "includes_str ?t (ascii ''Generate a new API key'')"
    by (rule includes_str_append) (rule api_key_head_mentions_new_key)
  moreover have "includes_str ?t (ascii ''Update the '' @ [0x60] @ ascii ''GEMINI_API_KEY''
                                @ [0x60] @ ascii '' environment variable'')"
    by (rule includes_str_append) (rule api_key_head_mentions_variable)
  ultimately show ?thesis by blast
qed

text \<open>An error with status 403 whose message reports a leaked key.\<close>

theorem credential_error_answers_500_witness:
  "enhanceRequestSchema_parse (body_with_input photographer_idea) = Inr photographer_idea
   \<and> provider_error (rejects_with leaked_key_error (masterPrompt (id photographer_idea)))
       = Some leaked_key_error
   \<and> api_key_rule leaked_key_error = Some True \<and> \<not> timeout_rule leaked_key_error
   \<and> (\<exists>t. response (post_enhance id (rejects_with leaked_key_error)
        (body_with_input photographer_idea))
           = Some \<lparr>res_status = 500, res_json = Enhanced t\<rparr>)"
  using credential_error_answers_500
      [where purify = id and generateContent = "rejects_with leaked_key_error",
        OF parse_photographer rejects_with_at leaked_key_error_rules]
    parse_photographer rejects_with_at leaked_key_error_rules
  by auto

text \<open>
  C7.  The response to a provider error is the one the priority list selects: timeout, then
  credential, then quota, then configuration, and the generic response when no rule
  applies.  An error to which several rules apply gets the response of the first of them.
\<close>

theorem classification_first_match_wins:
  assumes "enhanceRequestSchema_parse body = Inr input"
    and "provider_error (generateContent (masterPrompt (purify input))) = Some e"
  shows "response (post_enhance purify generateContent body)
           = first_match priority_list connecting_response e
       \<and> (timeout_rule e \<longrightarrow>
            response (post_enhance purify generateContent body) = Some timed_out_response)
       \<and> (\<not> timeout_rule e \<and> api_key_rule e = Some True \<longrightarrow>
            response (post_enhance purify generateContent body) = Some (api_key_response e))
       \<and> (\<not> timeout_rule e \<and> api_key_rule e = Some False \<and> quota_rule e = Some True \<longrightarrow>
            response (post_enhance purify generateContent body) = Some quota_response)
       \<and> (\<not> timeout_rule e \<and> api_key_rule e = Some False \<and> quota_rule e = Some False
            \<and> configuration_rule e = Some True \<longrightarrow>
            response (post_enhance purify generateContent body)
              = Some (configuration_response e))
       \<and> (\<not> timeout_rule e \<and> api_key_rule e = Some False \<and> quota_rule e = Some False
            \<and> configuration_rule e = Some False \<longrightarrow>
            response (post_enhance purify generateContent body)
              = Some (connecting_response e))"
proof -
  have r: "response (post_enhance purify generateContent body) = snd (catch_block (Error e))"
    by (rule error_response [where purify = purify and generateContent = generateContent,
          OF assms])
  show ?thesis
    unfolding r
    using catch_block_first_match [of e] catch_block_cases [of e]
    by (simp del: catch_block.simps)
qed

text \<open>
  An error with status 429 whose message names an API key and a model: the credential, quota
  and configuration rules all apply, and the response is the credential one.
\<close>

theorem classification_first_match_wins_witness:
  "enhanceRequestSchema_parse (body_with_input photographer_idea) = Inr photographer_idea
   \<and> provider_error (rejects_with overlapping_error (masterPrompt (id photographer_idea)))
       = Some overlapping_error
   \<and> \<not> timeout_rule overlapping_error \<and> api_key_rule overlapping_error = Some True
   \<and> quota_rule overlapping_error = Some True
   \<and> configuration_rule overlapping_error = Some True
   \<and> response (post_enhance id (rejects_with overlapping_error)
        (body_with_input photographer_idea))
       = Some (api_key_response overlapping_error)
   \<and> res_status (api_key_response overlapping_error) = 500"
proof -
  have "response (post_enhance id (rejects_with overlapping_error)
        (body_with_input photographer_idea))
       = Some (api_key_response overlapping_error)"
    using classification_first_match_wins
        [where purify = id and generateContent = "rejects_with overlapping_error",
          OF parse_photographer rejects_with_at]
      overlapping_error_rules
    by blast
  then show ?thesis
    using parse_photographer rejects_with_at overlapping_error_rules
    by (simp add: api_key_response_def)
qed

text \<open>
  C8, as amended.  For every failing request: a validation failure is answered with the
  fixed text \<^verbatim>\<open>Invalid input\<close> and a timeout with the fixed timeout text.  When the request
  fails with a provider error, the stack trace, code and name of the error never reach the
  response (changing them leaves the response as it is); the message text of the error is
  absent from the response in the timeout and quota cases, whose bodies are fixed texts, and
  is echoed after a fixed text in the credential, the configuration and the generic case.
  The validation error is logged, and so is the provider error with its fields unless its
  message is exactly \<^verbatim>\<open>Request timeout\<close>.
\<close>

theorem error_detail_in_response:
  "(\<forall>issue. enhanceRequestSchema_parse body = Inl issue \<longrightarrow>
       response (post_enhance purify generateContent body)
         = Some \<lparr>res_status = 400, res_json = Error_field invalid_input_text\<rparr>
       \<and> logged (post_enhance purify generateContent body)
           = [Log_error enhancement_error_label (Meta_error (ZodError issue))])
   \<and> (\<forall>input later.
         enhanceRequestSchema_parse body = Inr input
         \<and> generateContent (masterPrompt (purify input)) = Timer_first later \<longrightarrow>
           response (post_enhance purify generateContent body)
             = Some \<lparr>res_status = 408, res_json = Enhanced timed_out_text\<rparr>)
   \<and> (\<forall>input e.
         enhanceRequestSchema_parse body = Inr input
         \<and> provider_error (generateContent (masterPrompt (purify input))) = Some e \<longrightarrow>
           (\<forall>generateContent' s c n.
               provider_error (generateContent' (masterPrompt (purify input)))
                 = Some (e\<lparr>stack := s, code := c, name := n\<rparr>) \<longrightarrow>
               response (post_enhance purify generateContent' body)
                 = response (post_enhance purify generateContent body))
           \<and> (timeout_rule e \<longrightarrow>
                response (post_enhance purify generateContent body)
                  = Some \<lparr>res_status = 408, res_json = Enhanced timed_out_text\<rparr>)
           \<and> (\<not> timeout_rule e \<and> api_key_rule e = Some False \<and> quota_rule e = Some True \<longrightarrow>
                response (post_enhance purify generateContent body)
                  = Some \<lparr>res_status = 200, res_json = Enhanced quota_text\<rparr>)
           \<and> (\<not> timeout_rule e \<and> api_key_rule e = Some True \<longrightarrow>
                response (post_enhance purify generateContent body)
                  = Some \<lparr>res_status = 500,
                          res_json = Enhanced (api_key_error_head
                                               @ message_or e api_key_error_default)\<rparr>)
           \<and> (\<not> timeout_rule e \<and> api_key_rule e = Some False \<and> quota_rule e = Some False
                \<and> configuration_rule e = Some True \<longrightarrow>
                response (post_enhance purify generateContent body)
                  = Some \<lparr>res_status = 500,
                          res_json = Enhanced (configuration_error_head
                                               @ message_or e configuration_error_default)\<rparr>)
           \<and> (\<not> timeout_rule e \<and> api_key_rule e = Some False \<and> quota_rule e = Some False
                \<and> configuration_rule e = Some False \<longrightarrow>
                response (post_enhance purify generateContent body)
                  = Some \<lparr>res_status = 500,
                          res_json = Enhanced (connecting_error_head
                                               @ message_or e connecting_error_default
                                               @ connecting_error_tail)\<rparr>)
           \<and> (\<not> timeout_rule e \<longrightarrow>
                Log_error enhancement_error_label (Meta_error (Error e))
                  \<in> set (logged (post_enhance purify generateContent body))))"
proof (intro conjI allI impI; (elim conjE)?)
  fix issue
  assume p: "enhanceRequestSchema_parse body = Inl issue"
  show "response (post_enhance purify generateContent body)
         = Some \<lparr>res_status = 400, res_json = Error_field invalid_input_text\<rparr>"
    by (simp add: rejected_outcome [OF p] invalid_input_response_def)
  show "logged (post_enhance purify generateContent body)
           = [Log_error enhancement_error_label (Meta_error (ZodError issue))]"
    by (simp add: rejected_outcome [OF p])
next
  fix input later
  assume "enhanceRequestSchema_parse body = Inr input"
    and "generateContent (masterPrompt (purify input)) = Timer_first later"
  then show "response (post_enhance purify generateContent body)
             = Some \<lparr>res_status = 408, res_json = Enhanced timed_out_text\<rparr>"
    using timer_outcome [where purify = purify and generateContent = generateContent]
    by (simp add: timed_out_response_def)
next
  fix input generateContent' s c n and e :: js_error
  let ?e' = "e\<lparr>stack := s, code := c, name := n\<rparr>"
  assume p: "enhanceRequestSchema_parse body = Inr input"
    and g: "provider_error (generateContent (masterPrompt (purify input))) = Some e"
    and g': "provider_error (generateContent' (masterPrompt (purify input))) = Some ?e'"
  have "snd (catch_block (Error ?e')) = snd (catch_block (Error e))"
    by (rule catch_block_ignores_trace)
  then show "response (post_enhance purify generateContent' body)
                 = response (post_enhance purify generateContent body)"
    using error_response [where purify = purify and generateContent = generateContent, OF p g]
      error_response [where purify = purify and generateContent = generateContent', OF p g']
    by simp
next
  fix input e
  assume p: "enhanceRequestSchema_parse body = Inr input"
    and g: "provider_error (generateContent (masterPrompt (purify input))) = Some e"
  note r = error_response [where purify = purify and generateContent = generateContent, OF p g]
  {
    assume "timeout_rule e"
    then show "response (post_enhance purify generateContent body)
                  = Some \<lparr>res_status = 408, res_json = Enhanced timed_out_text\<rparr>"
      using r catch_block_cases(1) [of e] by (simp add: timed_out_response_def del: catch_block.simps)
  next
    assume "\<not> timeout_rule e" "api_key_rule e = Some False" "quota_rule e = Some True"
    then show "response (post_enhance purify generateContent body)
                  = Some \<lparr>res_status = 200, res_json = Enhanced quota_text\<rparr>"
      using r catch_block_cases(4) [of e] by (simp add: quota_response_def del: catch_block.simps)
  next
    assume "\<not> timeout_rule e" "api_key_rule e = Some True"
    then show "response (post_enhance purify generateContent body)
                  = Some \<lparr>res_status = 500,
                          res_json = Enhanced (api_key_error_head
                                               @ message_or e api_key_error_default)\<rparr>"
      using r catch_block_cases(3) [of e] by (simp add: api_key_response_def del: catch_block.simps)
  next
    assume "\<not> timeout_rule e" "api_key_rule e = Some False" "quota_rule e = Some False"
      "configuration_rule e = Some True"
    then show "response (post_enhance purify generateContent body)
                  = Some \<lparr>res_status = 500,
                          res_json = Enhanced (configuration_error_head
                                               @ message_or e configuration_error_default)\<rparr>"
      using r catch_block_cases(5) [of e] by (simp add: configuration_response_def del: catch_block.simps)
  next
    assume "\<not> timeout_rule e" "api_key_rule e = Some False" "quota_rule e = Some False"
      "configuration_rule e = Some False"
    then show "response (post_enhance purify generateContent body)
                  = Some \<lparr>res_status = 500,
                          res_json = Enhanced (connecting_error_head
                                               @ message_or e connecting_error_default
                                               @ connecting_error_tail)\<rparr>"
      using r catch_block_cases(6) [of e] by (simp add: connecting_response_def del: catch_block.simps)
  next
    assume "\<not> timeout_rule e"
    then show "Log_error enhancement_error_label (Meta_error (Error e))
                  \<in> set (logged (post_enhance purify generateContent body))"
      using error_logged [where purify = purify and generateContent = generateContent, OF p g]
        catch_block_logs_error [of e]
      by (simp del: catch_block.simps)
  }
qed

text \<open>
  Two errors that differ in stack, code and name only get the same response, and the error
  is logged.
\<close>

theorem error_detail_in_response_witness:
  "enhanceRequestSchema_parse (body_with_input photographer_idea) = Inr photographer_idea
   \<and> provider_error (rejects_with leaked_key_error (masterPrompt (id photographer_idea)))
       = Some leaked_key_error
   \<and> provider_error (rejects_with traced_key_error (masterPrompt (id photographer_idea)))
       = Some (leaked_key_error\<lparr>stack := Some (ascii ''at fetch (index.js:1)''),
                code := None, name := Some (ascii ''Error'')\<rparr>)
   \<and> \<not> timeout_rule leaked_key_error \<and> api_key_rule leaked_key_error = Some True
   \<and> response (post_enhance id (rejects_with traced_key_error)
        (body_with_input photographer_idea))
       = response (post_enhance id (rejects_with leaked_key_error)
          (body_with_input photographer_idea))
   \<and> Log_error enhancement_error_label (Meta_error (Error leaked_key_error))
       \<in> set (logged (post_enhance id (rejects_with leaked_key_error)
          (body_with_input photographer_idea)))"
proof -
  have t: "provider_error (rejects_with traced_key_error (masterPrompt (id photographer_idea)))
       = Some (leaked_key_error\<lparr>stack := Some (ascii ''at fetch (index.js:1)''),
                code := None, name := Some (ascii ''Error'')\<rparr>)"
    by (simp add: rejects_with_at traced_key_error_def)
  have g: "provider_error (rejects_with leaked_key_error (masterPrompt (id photographer_idea)))
       = Some leaked_key_error"
    by (rule rejects_with_at)
  note inst = error_detail_in_response
      [of "body_with_input photographer_idea" id "rejects_with leaked_key_error"]
  from inst parse_photographer g t
  have "response (post_enhance id (rejects_with traced_key_error)
        (body_with_input photographer_idea))
       = response (post_enhance id (rejects_with leaked_key_error)
          (body_with_input photographer_idea))"
    by blast
  moreover from inst parse_photographer g leaked_key_error_rules
  have "Log_error enhancement_error_label (Meta_error (Error leaked_key_error))
       \<in> set (logged (post_enhance id (rejects_with leaked_key_error)
          (body_with_input photographer_idea)))"
    by blast
  ultimately show ?thesis
    using parse_photographer g t leaked_key_error_rules by simp
qed

text \<open>
  Against C8 as it is worded: an error with status 403 is a credential error, not the generic
  case, and its message text is part of the response body.
\<close>

theorem credential_response_echoes_message:
  "api_key_rule leaked_key_error = Some True \<and> \<not> timeout_rule leaked_key_error
   \<and> message leaked_key_error = Str (ascii ''key AIzaSy-secret was reported as leaked'')
   \<and> response (post_enhance id (rejects_with leaked_key_error)
        (body_with_input photographer_idea))
       = Some \<lparr>res_status = 500,
               res_json = Enhanced (api_key_error_head
                                    @ ascii ''key AIzaSy-secret was reported as leaked'')\<rparr>"
proof -
  have m: "message leaked_key_error = Str (ascii ''key AIzaSy-secret was reported as leaked'')"
    by (simp add: leaked_key_error_def error_with_def)
  have "message_or leaked_key_error api_key_error_default
          = ascii ''key AIzaSy-secret was reported as leaked''"
    by (simp add: message_or_def m) (simp add: ascii_def)
  then show ?thesis
    using error_response
        [where purify = id and generateContent = "rejects_with leaked_key_error",
          OF parse_photographer rejects_with_at]
      leaked_key_error_rules m
    by (simp add: api_key_response_def)
qed

section \<open>Exceptions that leave the handler\<close>


text \<open>
  Every other end of the handler is a response.  When the message of the provider error, if
  there is one, is a string or nullish, the handler answers: 400 with
  \<^verbatim>\<open>{ error: 'Invalid input' }\<close> when validation fails, and \<^verbatim>\<open>{ enhanced: text }\<close> with
  status 200, 408 or 500 otherwise.
\<close>

lemma handler_answers_text_messages:
  assumes "\<And>input e. enhanceRequestSchema_parse body = Inr input \<Longrightarrow>
             provider_error (generateContent (masterPrompt (purify input))) = Some e \<Longrightarrow>
             message e = Nullish \<or> (\<exists>m. message e = Str m)"
  shows "(\<exists>issue. enhanceRequestSchema_parse body = Inl issue
            \<and> response (post_enhance purify generateContent body)
                = Some \<lparr>res_status = 400, res_json = Error_field invalid_input_text\<rparr>)
         \<or> (\<exists>input st t. enhanceRequestSchema_parse body = Inr input
            \<and> response (post_enhance purify generateContent body)
                = Some \<lparr>res_status = st, res_json = Enhanced t\<rparr>
            \<and> st \<in> {200, 408, 500})"
proof (cases "enhanceRequestSchema_parse body")
  case (Inl issue)
  then show ?thesis
    by (simp add: rejected_outcome invalid_input_response_def)
next
  case (Inr input)
  have "\<exists>st t. response (post_enhance purify generateContent body)
                = Some \<lparr>res_status = st, res_json = Enhanced t\<rparr> \<and> st \<in> {200, 408, 500}"
  proof (cases "provider_error (generateContent (masterPrompt (purify input)))")
    case (Some e)
    from assms [OF Inr Some] have "message e = Nullish \<or> (\<exists>m. message e = Str m)" .
    from catch_block_answers_text_message [OF this] show ?thesis
      using error_response [where purify = purify and generateContent = generateContent,
          OF Inr Some]
      by simp
  next
    case None
    show ?thesis
    proof (cases "generateContent (masterPrompt (purify input))" rule: provider_error.cases)
      case (3 finalOutput)
      then show ?thesis
        using fulfilled_outcome [where purify = purify and generateContent = generateContent,
            OF Inr]
        by (simp add: success_response_def)
    next
      case (4 later)
      then show ?thesis
        using timer_outcome [where purify = purify and generateContent = generateContent,
            OF Inr]
        by (simp add: timed_out_response_def)
    qed (use None in simp_all)
  qed
  then show ?thesis
    using Inr by simp
qed

end
